theory Spec2Isabelle
  imports Main
begin

section \<open>Framework values shared by the organization constructs\<close>

text \<open>
  A construct is addressed by the stack it lives in and by its path of construct ids
  below that stack. \<open>new C(scope, id, ...)\<close> creates the node \<open>child scope id\<close>, and
  \<open>Stack.of(scope)\<close> is the stack component of the scope.
\<close>

datatype node = Node (nodeStack: string) (nodePath: "string list")

definition child :: "node \<Rightarrow> string \<Rightarrow> node" where
  "child scope cid = Node (nodeStack scope) (nodePath scope @ [cid])"

definition stackOf :: "node \<Rightarrow> node" where
  "stackOf scope = Node (nodeStack scope) []"

text \<open>
  Values that end up in a template: literal strings, the framework's pseudo parameters
  (\<open>cdk.Aws.PARTITION\<close>), references to a resource (\<open>resource.ref\<close>), attributes of a
  resource (\<open>resource.getAttString(a)\<close>) and template strings mixing text and tokens.
\<close>

datatype cfn_value =
    Literal string
  | PseudoParameter string
  | Ref node
  | GetAtt node string
  | Concat "cfn_value list"

definition Aws_PARTITION :: cfn_value where
  "Aws_PARTITION = PseudoParameter ''AWS::Partition''"

text \<open>\<open>path.join(__dirname, rest)\<close>: the module directory stays symbolic.\<close>

datatype dir_path = PathJoinDirname string

datatype runtime = NODEJS_14_X

datatype removal_policy = DESTROY | RETAIN | SNAPSHOT

datatype kms_key = KmsKey node

record policy_statement =
  Effect :: string
  Action :: "string list"
  Resource :: string

record custom_resource_provider_props =
  codeDirectory :: dir_path
  runtime :: runtime
  policyStatements :: "policy_statement list"

text \<open>
  A \<open>CustomResourceProvider\<close> object: the node it was created at (a child of its stack)
  and the props it was created with. Its handler function is its child \<open>Handler\<close>, and
  its service token is the \<open>Arn\<close> attribute of that handler.
\<close>

record custom_resource_provider =
  providerNode :: node
  providerProps :: custom_resource_provider_props

definition findChild_Handler :: "custom_resource_provider \<Rightarrow> node" where
  "findChild_Handler p = child (providerNode p) ''Handler''"

definition serviceToken_of :: "custom_resource_provider \<Rightarrow> cfn_value" where
  "serviceToken_of p = GetAtt (findChild_Handler p) ''Arn''"

record custom_resource =
  resourceNode :: node
  resourceType :: string
  serviceToken :: cfn_value
  properties :: "(string \<times> cfn_value) list"
  dependencies :: "node list"

definition ref :: "custom_resource \<Rightarrow> cfn_value" where
  "ref r = Ref (resourceNode r)"

definition getAttString :: "custom_resource \<Rightarrow> string \<Rightarrow> cfn_value" where
  "getAttString r a = GetAtt (resourceNode r) a"

definition addDependency :: "custom_resource \<Rightarrow> node \<Rightarrow> custom_resource" where
  "addDependency r n = r\<lparr>dependencies := dependencies r @ [n]\<rparr>"

record log_group =
  logGroupNode :: node
  logGroupName :: cfn_value
  retention :: int
  encryptionKey :: kms_key
  removalPolicy :: removal_policy

section \<open>The process state of one synthesis pass\<close>

text \<open>
  The state the constructors read and write: the static field
  \<open>OrganizationalUnit.isLogGroupConfigured\<close> (one per process, initially \<open>false\<close>) and
  the provider objects that have been attached to stacks so far.

  \<open>CustomResourceProvider.getOrCreateProvider(scope, uniqueid, props)\<close> is a call into
  the provisioning framework. It is modelled by its contract: it looks up the child
  \<open>uniqueid + 'CustomResourceProvider'\<close> of \<open>Stack.of(scope)\<close>, returns it when it
  exists (the props of the call are then ignored), and otherwise creates it from the
  props, attaches it to the stack and returns it. Exceptions raised inside the
  framework (an id used twice in one scope, a rejected property value) are not part
  of the model: the constructors below contain no raise of their own.
\<close>

record world =
  isLogGroupConfigured :: bool
  providers :: "custom_resource_provider list"

definition initial_world :: world where
  "initial_world = \<lparr>isLogGroupConfigured = False, providers = []\<rparr>"

definition tryFindChild :: "world \<Rightarrow> node \<Rightarrow> custom_resource_provider option" where
  "tryFindChild w n = find (\<lambda>p. providerNode p = n) (providers w)"

definition getOrCreateProvider ::
  "world \<Rightarrow> node \<Rightarrow> string \<Rightarrow> custom_resource_provider_props
    \<Rightarrow> custom_resource_provider \<times> world" where
  "getOrCreateProvider w scope uniqueid props =
     (let pid = uniqueid @ ''CustomResourceProvider'';
          stack = stackOf scope
      in case tryFindChild w (child stack pid) of
           Some provider \<Rightarrow> (provider, w)
         | None \<Rightarrow>
             (let provider = \<lparr>providerNode = child stack pid, providerProps = props\<rparr>
              in (provider, w\<lparr>providers := providers w @ [provider]\<rparr>)))"

section \<open>EnableAwsServiceAccess\<close>

record enable_aws_service_access_props =
  servicePrincipal :: string

record enable_aws_service_access =
  esaNode :: node
  id_esa :: cfn_value
  esaProvider :: custom_resource_provider
  esaResource :: custom_resource

definition enableAwsServiceAccess_providerProps :: custom_resource_provider_props where
  "enableAwsServiceAccess_providerProps =
     \<lparr>codeDirectory = PathJoinDirname ''enable-aws-service-access/dist'',
      runtime = NODEJS_14_X,
      policyStatements =
        [\<lparr>Effect = ''Allow'',
          Action = [''organizations:DisableAWSServiceAccess'',
                    ''organizations:EnableAwsServiceAccess''],
          Resource = ''*''\<rparr>]\<rparr>"

definition EnableAwsServiceAccess ::
  "world \<Rightarrow> node \<Rightarrow> string \<Rightarrow> enable_aws_service_access_props
    \<Rightarrow> enable_aws_service_access \<times> world" where
  "EnableAwsServiceAccess w scope cid props =
     (let this = child scope cid;
          (customResource, w1) =
            getOrCreateProvider w this ''Custom::OrganizationsEnableAwsServiceAccess''
              enableAwsServiceAccess_providerProps;
          resource =
            \<lparr>resourceNode = child this ''Resource'',
             resourceType = ''Custom::EnableAwsServiceAccess'',
             serviceToken = serviceToken_of customResource,
             properties =
               [(''partition'', Aws_PARTITION),
                (''servicePrincipal'', Literal (servicePrincipal props))],
             dependencies = []\<rparr>
      in (\<lparr>esaNode = this, id_esa = ref resource,
           esaProvider = customResource, esaResource = resource\<rparr>, w1))"

section \<open>OrganizationalUnit\<close>

record organizational_unit_props =
  name :: string
  path :: string
  kmsKey :: kms_key
  logRetentionInDays :: int

record organizational_unit =
  ouNode :: node
  organizationalUnitName :: string
  organizationalUnitPath :: string
  organizationalUnitId :: cfn_value
  organizationalUnitArn :: cfn_value
  ouProvider :: custom_resource_provider
  ouResource :: custom_resource
  ouLogGroup :: "log_group option"

definition organizationalUnit_providerProps :: custom_resource_provider_props where
  "organizationalUnit_providerProps =
     \<lparr>codeDirectory = PathJoinDirname ''create-organizational-unit/dist'',
      runtime = NODEJS_14_X,
      policyStatements =
        [\<lparr>Effect = ''Allow'',
          Action = [''organizations:CreateOrganizationalUnit'',
                    ''organizations:ListOrganizationalUnitsForParent'',
                    ''organizations:ListRoots'',
                    ''organizations:UpdateOrganizationalUnit''],
          Resource = ''*''\<rparr>]\<rparr>"

definition OrganizationalUnit ::
  "world \<Rightarrow> node \<Rightarrow> string \<Rightarrow> organizational_unit_props
    \<Rightarrow> organizational_unit \<times> world" where
  "OrganizationalUnit w scope cid props =
     (let this = child scope cid;
          (createOrganizationalUnitFunction, w1) =
            getOrCreateProvider w this ''Custom::OrganizationsCreateOrganizationalUnit''
              organizationalUnit_providerProps;
          resource =
            \<lparr>resourceNode = child this ''Resource'',
             resourceType = ''Custom::CreateOrganizationalUnit'',
             serviceToken = serviceToken_of createOrganizationalUnitFunction,
             properties =
               [(''partition'', Aws_PARTITION),
                (''name'', Literal (name props)),
                (''path'', Literal (path props))],
             dependencies = []\<rparr>;
          (resource1, logGroup1, w2) =
            (if \<not> isLogGroupConfigured w1 then
               (let logGroup =
                      \<lparr>logGroupNode = child this ''LogGroup'',
                       logGroupName =
                         Concat [Literal ''/aws/lambda/'',
                                 Ref (findChild_Handler createOrganizationalUnitFunction)],
                       retention = logRetentionInDays props,
                       encryptionKey = kmsKey props,
                       removalPolicy = DESTROY\<rparr>
                in (addDependency resource (logGroupNode logGroup), Some logGroup,
                    w1\<lparr>isLogGroupConfigured := True\<rparr>))
             else (resource, None, w1))
      in (\<lparr>ouNode = this,
           organizationalUnitName = name props,
           organizationalUnitPath = path props,
           organizationalUnitId = ref resource1,
           organizationalUnitArn = getAttString resource1 ''arn'',
           ouProvider = createOrganizationalUnitFunction,
           ouResource = resource1,
           ouLogGroup = logGroup1\<rparr>, w2))"

section \<open>A synthesis pass: constructions in program order\<close>

datatype construction =
    NewOrganizationalUnit node string organizational_unit_props
  | NewEnableAwsServiceAccess node string enable_aws_service_access_props

datatype constructed =
    OU organizational_unit
  | ESA enable_aws_service_access

fun construct :: "world \<Rightarrow> construction \<Rightarrow> constructed \<times> world" where
  "construct w (NewOrganizationalUnit scope cid props) =
     (let (u, w') = OrganizationalUnit w scope cid props in (OU u, w'))"
| "construct w (NewEnableAwsServiceAccess scope cid props) =
     (let (e, w') = EnableAwsServiceAccess w scope cid props in (ESA e, w'))"

fun synth :: "world \<Rightarrow> construction list \<Rightarrow> constructed list \<times> world" where
  "synth w [] = ([], w)"
| "synth w (c # cs) =
     (let (i, w1) = construct w c; (rest, w2) = synth w1 cs in (i # rest, w2))"

fun units :: "constructed list \<Rightarrow> organizational_unit list" where
  "units [] = []"
| "units (OU u # xs) = u # units xs"
| "units (ESA e # xs) = units xs"

fun grants :: "constructed list \<Rightarrow> enable_aws_service_access list" where
  "grants [] = []"
| "grants (OU u # xs) = grants xs"
| "grants (ESA e # xs) = e # grants xs"

definition hasLogGroup :: "organizational_unit \<Rightarrow> bool" where
  "hasLogGroup u = (ouLogGroup u \<noteq> None)"

definition logGroups :: "constructed list \<Rightarrow> log_group list" where
  "logGroups xs =
     concat (map (\<lambda>u. case ouLogGroup u of None \<Rightarrow> [] | Some g \<Rightarrow> [g]) (units xs))"

fun requestedUnits :: "construction list \<Rightarrow> node list" where
  "requestedUnits [] = []"
| "requestedUnits (NewOrganizationalUnit scope cid props # cs) =
     child scope cid # requestedUnits cs"
| "requestedUnits (NewEnableAwsServiceAccess scope cid props # cs) = requestedUnits cs"

text \<open>The stack child under which each construct class looks its provider up.\<close>

definition organizationalUnit_providerNode :: "node \<Rightarrow> node" where
  "organizationalUnit_providerNode n =
     child (stackOf n) ''Custom::OrganizationsCreateOrganizationalUnitCustomResourceProvider''"

definition enableAwsServiceAccess_providerNode :: "node \<Rightarrow> node" where
  "enableAwsServiceAccess_providerNode n =
     child (stackOf n) ''Custom::OrganizationsEnableAwsServiceAccessCustomResourceProvider''"

section \<open>AcceleratorPipeline\<close>

text \<open>
  What the constructor reads from outside \<open>pipeline.ts\<close>: the account, region and
  partition of the enclosing stack, and the members of the enum \<open>AcceleratorStage\<close>
  (declared in another package of the repository) that the stage actions name.
\<close>

record stack_env =
  account :: cfn_value
  region :: cfn_value
  partition_stack :: cfn_value

record accelerator_stage =
  LOGGING :: string
  ORGANIZATIONS :: string
  SECURITY_AUDIT :: string
  SECURITY :: string

record accelerator_pipeline_props =
  sourceRepositoryName :: string
  sourceBranchName :: string

datatype artifact = Artifact string

record cfn_nag_rule =
  rule_id :: string
  reason :: string

record secure_s3_bucket =
  bucketId :: string
  s3BucketName :: cfn_value
  kmsAliasName :: string
  kmsDescription :: string
  cfnBucket_metadata :: "cfn_nag_rule list"

record config_repository =
  configRepositoryId :: string
  repositoryName :: string
  repositoryBranchName :: string
  description :: string

datatype repository =
    Repository_fromRepositoryName string string
  | ConfigRepository_getRepository config_repository

record iam_role =
  roleId :: string
  assumedBy :: string
  managedPolicies :: "string list"

datatype build_image = STANDARD_5_0
datatype compute_type = SMALL | MEDIUM | LARGE
datatype cache_mode = Cache_local_SOURCE
datatype env_var_type = PLAINTEXT | PARAMETER_STORE | SECRETS_MANAGER
datatype code_commit_trigger = NONE | POLL | EVENTS

record build_environment_variable =
  var_type :: env_var_type
  var_value :: cfn_value

record build_artifacts =
  files :: "string list"
  enable_symlinks :: string

record build_spec =
  version :: string
  install_runtime_versions :: "(string \<times> nat) list"
  build_commands :: "string list"
  artifacts :: "build_artifacts option"

record build_environment =
  buildImage :: build_image
  privileged :: bool
  computeType :: compute_type
  environmentVariables_project :: "(string \<times> build_environment_variable) list"

record pipeline_project =
  projectId :: string
  projectName :: string
  role_project :: iam_role
  buildSpec :: build_spec
  environment :: build_environment
  cache :: cache_mode

text \<open>
  The two action classes share the framework's common action props (\<open>actionName\<close>,
  \<open>runOrder\<close>, \<open>role\<close>); a prop the source leaves out is \<open>None\<close> (\<open>undefined\<close>).
\<close>

record common_action_props =
  actionName :: string
  runOrder :: "int option"
  role :: "iam_role option"

record code_commit_source_action_props = common_action_props +
  repository :: repository
  branch :: string
  output_artifact :: artifact
  trigger :: code_commit_trigger

record code_build_action_props = common_action_props +
  project :: pipeline_project
  input_artifact :: artifact
  extraInputs :: "artifact list option"
  outputs :: "artifact list option"
  environmentVariables :: "(string \<times> build_environment_variable) list option"

datatype action =
    CodeCommitSourceAction code_commit_source_action_props
  | CodeBuildAction code_build_action_props

fun actionName_of :: "action \<Rightarrow> string" where
  "actionName_of (CodeCommitSourceAction a) = actionName a"
| "actionName_of (CodeBuildAction a) = actionName a"

fun runOrder_of :: "action \<Rightarrow> int option" where
  "runOrder_of (CodeCommitSourceAction a) = runOrder a"
| "runOrder_of (CodeBuildAction a) = runOrder a"

record stage_props =
  stageName :: string
  actions :: "action list"

text \<open>
  \<open>new codepipeline.Pipeline\<close> without a \<open>stages\<close> prop starts with no stage, and
  \<open>addStage\<close> without a placement appends the stage after the existing ones.
\<close>

record pipeline =
  pipelineName :: string
  artifactBucket :: secure_s3_bucket
  role_pipeline :: iam_role
  defaultPolicy_metadata :: "cfn_nag_rule list"
  stages :: "stage_props list"

definition addStage :: "pipeline \<Rightarrow> stage_props \<Rightarrow> pipeline" where
  "addStage p st = p\<lparr>stages := stages p @ [st]\<rparr>"

text \<open>The private fields of the class, and the object with the constructs it created.\<close>

record accelerator_pipeline_fields =
  pipelineRole :: iam_role
  toolkitRole :: iam_role
  toolkitProject :: pipeline_project
  buildOutput :: artifact
  acceleratorRepoArtifact :: artifact
  configRepoArtifact :: artifact

record accelerator_pipeline = accelerator_pipeline_fields +
  bucket :: secure_s3_bucket
  configRepository :: config_repository
  buildRole :: iam_role
  buildProject :: pipeline_project
  pipeline_resource :: pipeline

definition createToolkitStage ::
  "'a accelerator_pipeline_fields_scheme \<Rightarrow> string \<Rightarrow> cfn_value \<Rightarrow> int option
    \<Rightarrow> code_build_action_props" where
  "createToolkitStage this actionName' cdkOptions runOrder' =
     \<lparr>actionName = actionName',
      runOrder = runOrder',
      role = Some (pipelineRole this),
      project = toolkitProject this,
      input_artifact = buildOutput this,
      extraInputs = Some [configRepoArtifact this],
      outputs = None,
      environmentVariables =
        Some [(''CDK_OPTIONS'', \<lparr>var_type = PLAINTEXT, var_value = cdkOptions\<rparr>)]\<rparr>"

definition AcceleratorPipeline ::
  "stack_env \<Rightarrow> accelerator_stage \<Rightarrow> accelerator_pipeline_props \<Rightarrow> accelerator_pipeline" where
  "AcceleratorPipeline env AcceleratorStage props =
     (let bucket0 =
            \<lparr>bucketId = ''SecureBucket'',
             s3BucketName =
               Concat [Literal ''aws-accelerator-pipeline-'', account env, Literal ''-'', region env],
             kmsAliasName = ''alias/accelerator/pipeline/s3'',
             kmsDescription = ''AWS Accelerator Pipeline Bucket CMK'',
             cfnBucket_metadata =
               [\<lparr>rule_id = ''W35'',
                 reason = ''S3 Bucket access logging is not enabled for the pipeline artifacts bucket.''\<rparr>]\<rparr>;
          configRepository0 =
            \<lparr>configRepositoryId = ''ConfigRepository'',
             repositoryName = ''accelerator-config'',
             repositoryBranchName = ''main'',
             description =
               ''AWS Accelerator configuration repository, created and initialized with default config file by pipeline''\<rparr>;
          pipelineRole0 =
            \<lparr>roleId = ''PipelineRole'', assumedBy = ''codepipeline.amazonaws.com'',
             managedPolicies = []\<rparr>;
          pipeline0 =
            \<lparr>pipelineName = ''AWSAccelerator-Pipeline'',
             artifactBucket = bucket0,
             role_pipeline = pipelineRole0,
             defaultPolicy_metadata =
               [\<lparr>rule_id = ''W76'',
                 reason = ''This policy is generated by CDK which can cause a high SPCM score.''\<rparr>],
             stages = []\<rparr>;
          acceleratorRepoArtifact0 = Artifact ''Source'';
          configRepoArtifact0 = Artifact ''Config'';
          pipeline1 = addStage pipeline0
            \<lparr>stageName = ''Source'',
             actions =
               [CodeCommitSourceAction
                  \<lparr>actionName = ''Source'', runOrder = None, role = None,
                   repository =
                     Repository_fromRepositoryName ''SourceRepo'' (sourceRepositoryName props),
                   branch = sourceBranchName props,
                   output_artifact = acceleratorRepoArtifact0,
                   trigger = NONE\<rparr>,
                CodeCommitSourceAction
                  \<lparr>actionName = ''Configuration'', runOrder = None, role = None,
                   repository = ConfigRepository_getRepository configRepository0,
                   branch = ''main'',
                   output_artifact = configRepoArtifact0,
                   trigger = NONE\<rparr>]\<rparr>;
          buildRole0 =
            \<lparr>roleId = ''BuildRole'', assumedBy = ''codebuild.amazonaws.com'',
             managedPolicies = []\<rparr>;
          buildProject0 =
            \<lparr>projectId = ''BuildProject'',
             projectName = ''AWSAccelerator-BuildProject'',
             role_project = buildRole0,
             buildSpec =
               \<lparr>version = ''0.2'',
                install_runtime_versions = [(''nodejs'', 14)],
                build_commands = [''cd source'', ''yarn install'', ''yarn lerna link'', ''yarn build''],
                artifacts = Some \<lparr>files = [''**/*''], enable_symlinks = ''yes''\<rparr>\<rparr>,
             environment =
               \<lparr>buildImage = STANDARD_5_0, privileged = True, computeType = MEDIUM,
                environmentVariables_project =
                  [(''ACCELERATOR_NAME'',
                    \<lparr>var_type = PLAINTEXT, var_value = Literal ''aws-accelerator''\<rparr>)]\<rparr>,
             cache = Cache_local_SOURCE\<rparr>;
          buildOutput0 = Artifact ''Build'';
          pipeline2 = addStage pipeline1
            \<lparr>stageName = ''Build'',
             actions =
               [CodeBuildAction
                  \<lparr>actionName = ''Build'', runOrder = None, role = Some pipelineRole0,
                   project = buildProject0,
                   input_artifact = acceleratorRepoArtifact0,
                   extraInputs = None,
                   outputs = Some [buildOutput0],
                   environmentVariables = None\<rparr>]\<rparr>;
          toolkitRole0 =
            \<lparr>roleId = ''ToolkitRole'', assumedBy = ''codebuild.amazonaws.com'',
             managedPolicies = [''AdministratorAccess'']\<rparr>;
          toolkitProject0 =
            \<lparr>projectId = ''ToolkitProject'',
             projectName = ''AWSAccelerator-ToolkitProject'',
             role_project = toolkitRole0,
             buildSpec =
               \<lparr>version = ''0.2'',
                install_runtime_versions = [(''nodejs'', 14)],
                build_commands =
                  [''env'',
                   ''cd source'',
                   ''cd packages/@aws-accelerator/accelerator'',
                   ''npx ts-node --transpile-only cdk.ts --require-approval never $CDK_OPTIONS --config-dir $CODEBUILD_SRC_DIR_Config''],
                artifacts = None\<rparr>,
             environment =
               \<lparr>buildImage = STANDARD_5_0, privileged = True, computeType = MEDIUM,
                environmentVariables_project =
                  [(''CDK_NEW_BOOTSTRAP'', \<lparr>var_type = PLAINTEXT, var_value = Literal ''1''\<rparr>),
                   (''ACCOUNT_ID'',
                    \<lparr>var_type = PLAINTEXT, var_value = PseudoParameter ''AWS::AccountId''\<rparr>),
                   (''ACCELERATOR_NAME'',
                    \<lparr>var_type = PLAINTEXT, var_value = Literal ''aws-accelerator''\<rparr>)]\<rparr>,
             cache = Cache_local_SOURCE\<rparr>;
          this =
            \<lparr>pipelineRole = pipelineRole0,
             toolkitRole = toolkitRole0,
             toolkitProject = toolkitProject0,
             buildOutput = buildOutput0,
             acceleratorRepoArtifact = acceleratorRepoArtifact0,
             configRepoArtifact = configRepoArtifact0\<rparr>;
          pipeline3 = addStage pipeline2
            \<lparr>stageName = ''Bootstrap'',
             actions =
               [CodeBuildAction
                  (createToolkitStage this ''Bootstrap''
                     (Concat [Literal ''bootstrap --partition '', partition_stack env]) None)]\<rparr>;
          pipeline4 = addStage pipeline3
            \<lparr>stageName = ''Logging'',
             actions =
               [CodeBuildAction
                  (createToolkitStage this ''Logging''
                     (Literal (''deploy --stage '' @ LOGGING AcceleratorStage)) None)]\<rparr>;
          pipeline5 = addStage pipeline4
            \<lparr>stageName = ''Organization'',
             actions =
               [CodeBuildAction
                  (createToolkitStage this ''Organizations''
                     (Literal (''deploy --stage '' @ ORGANIZATIONS AcceleratorStage)) None)]\<rparr>;
          pipeline6 = addStage pipeline5
            \<lparr>stageName = ''SecurityAudit'',
             actions =
               [CodeBuildAction
                  (createToolkitStage this ''SecurityAudit''
                     (Literal (''deploy --stage '' @ SECURITY_AUDIT AcceleratorStage)) None)]\<rparr>;
          pipeline7 = addStage pipeline6
            \<lparr>stageName = ''Deploy'',
             actions =
               [CodeBuildAction
                  (createToolkitStage this ''Security''
                     (Literal (''deploy --stage '' @ SECURITY AcceleratorStage)) (Some 1))]\<rparr>
      in accelerator_pipeline_fields.extend this
           \<lparr>bucket = bucket0,
            configRepository = configRepository0,
            buildRole = buildRole0,
            buildProject = buildProject0,
            pipeline_resource = pipeline7\<rparr>)"

text \<open>The actions of a pipeline that are CodeBuild actions, stage by stage.\<close>

fun codeBuildActions :: "action list \<Rightarrow> code_build_action_props list" where
  "codeBuildActions [] = []"
| "codeBuildActions (CodeCommitSourceAction a # xs) = codeBuildActions xs"
| "codeBuildActions (CodeBuildAction a # xs) = a # codeBuildActions xs"

section \<open>Auxiliary definitions for the statements\<close>

text \<open>
  The provider table is well formed when no two providers sit at the same node and
  every provider is one of the two kinds the constructors create, with the props of
  its kind.
\<close>

definition providers_wf :: "world \<Rightarrow> bool" where
  "providers_wf w =
     (distinct (map providerNode (providers w)) \<and>
      (\<forall>p \<in> set (providers w).
         (providerNode p = organizationalUnit_providerNode (providerNode p) \<and>
          providerProps p = organizationalUnit_providerProps) \<or>
         (providerNode p = enableAwsServiceAccess_providerNode (providerNode p) \<and>
          providerProps p = enableAwsServiceAccess_providerProps)))"

text \<open>Concrete inputs on which the theorems are evaluated.\<close>

definition demo_key :: kms_key where
  "demo_key = KmsKey (Node ''Management'' [''Key''])"

definition demo_pass :: "construction list" where
  "demo_pass =
     [NewEnableAwsServiceAccess (Node ''Management'' []) ''ConfigAccess''
        \<lparr>servicePrincipal = ''config.amazonaws.com''\<rparr>,
      NewOrganizationalUnit (Node ''Management'' []) ''Security''
        \<lparr>name = ''Security'', path = ''/'', kmsKey = demo_key, logRetentionInDays = 365\<rparr>,
      NewEnableAwsServiceAccess (Node ''Management'' [''Nested'']) ''GuardDutyAccess''
        \<lparr>servicePrincipal = ''guardduty.amazonaws.com''\<rparr>,
      NewOrganizationalUnit (Node ''Management'' [''Nested'']) ''Sandbox''
        \<lparr>name = ''Sandbox'', path = ''/'', kmsKey = demo_key, logRetentionInDays = 7\<rparr>]"

definition demo_env :: stack_env where
  "demo_env = \<lparr>account = Literal ''111122223333'', region = Literal ''us-east-1'',
      partition_stack = Literal ''aws''\<rparr>"

definition demo_stage :: accelerator_stage where
  "demo_stage = \<lparr>LOGGING = ''logging'', ORGANIZATIONS = ''organizations'',
      SECURITY_AUDIT = ''security-audit'', SECURITY = ''security''\<rparr>"

definition demo_props :: accelerator_pipeline_props where
  "demo_props = \<lparr>sourceRepositoryName = ''aws-accelerator-source'', sourceBranchName = ''main''\<rparr>"

lemmas eval_simps =
  demo_pass_def demo_key_def initial_world_def OrganizationalUnit_def EnableAwsServiceAccess_def
  getOrCreateProvider_def tryFindChild_def child_def stackOf_def Let_def
  organizationalUnit_providerProps_def enableAwsServiceAccess_providerProps_def
  serviceToken_of_def findChild_Handler_def ref_def getAttString_def addDependency_def
  Aws_PARTITION_def

section \<open>Properties of the constructors\<close>

subsection \<open>The static flag\<close>

lemma getOrCreateProvider_flag:
  "isLogGroupConfigured (snd (getOrCreateProvider w scope u p)) = isLogGroupConfigured w"
  by (simp add: getOrCreateProvider_def Let_def split: option.split)

lemma OrganizationalUnit_flag:
  "isLogGroupConfigured (snd (OrganizationalUnit w scope cid props))"
  using getOrCreateProvider_flag [of w "child scope cid" "''Custom::OrganizationsCreateOrganizationalUnit''" organizationalUnit_providerProps]
  by (simp add: OrganizationalUnit_def Let_def case_prod_beta)

lemma OrganizationalUnit_logGroup:
  "ouLogGroup (fst (OrganizationalUnit w scope cid props)) =
     (if isLogGroupConfigured w then None
      else Some \<lparr>logGroupNode = child (child scope cid) ''LogGroup'',
                 logGroupName = Concat [Literal ''/aws/lambda/'',
                    Ref (findChild_Handler (ouProvider (fst (OrganizationalUnit w scope cid props))))],
                 retention = logRetentionInDays props,
                 encryptionKey = kmsKey props,
                 removalPolicy = DESTROY\<rparr>)"
  using getOrCreateProvider_flag [of w "child scope cid" "''Custom::OrganizationsCreateOrganizationalUnit''" organizationalUnit_providerProps]
  by (simp add: OrganizationalUnit_def Let_def case_prod_beta)

lemma OrganizationalUnit_node:
  "ouNode (fst (OrganizationalUnit w scope cid props)) = child scope cid"
  by (simp add: OrganizationalUnit_def Let_def case_prod_beta)

lemma EnableAwsServiceAccess_flag:
  "isLogGroupConfigured (snd (EnableAwsServiceAccess w scope cid props)) = isLogGroupConfigured w"
  using getOrCreateProvider_flag [of w "child scope cid" "''Custom::OrganizationsEnableAwsServiceAccess''" enableAwsServiceAccess_providerProps]
  by (simp add: EnableAwsServiceAccess_def Let_def case_prod_beta)

lemma EnableAwsServiceAccess_node:
  "esaNode (fst (EnableAwsServiceAccess w scope cid props)) = child scope cid"
  by (simp add: EnableAwsServiceAccess_def Let_def case_prod_beta)

lemma synth_Cons:
  "synth w (c # cs) =
     (fst (construct w c) # fst (synth (snd (construct w c)) cs),
      snd (synth (snd (construct w c)) cs))"
  by (simp add: case_prod_beta)

lemma synth_Cons_OU:
  "synth w (NewOrganizationalUnit scope cid props # cs) =
     (OU (fst (OrganizationalUnit w scope cid props)) #
        fst (synth (snd (OrganizationalUnit w scope cid props)) cs),
      snd (synth (snd (OrganizationalUnit w scope cid props)) cs))"
  by (simp add: case_prod_beta)

lemma synth_Cons_ESA:
  "synth w (NewEnableAwsServiceAccess scope cid props # cs) =
     (ESA (fst (EnableAwsServiceAccess w scope cid props)) #
        fst (synth (snd (EnableAwsServiceAccess w scope cid props)) cs),
      snd (synth (snd (EnableAwsServiceAccess w scope cid props)) cs))"
  by (simp add: case_prod_beta)

lemma synth_unit_nodes:
  "map ouNode (units (fst (synth w cs))) = requestedUnits cs"
proof (induction cs arbitrary: w)
  case Nil
  show ?case by simp
next
  case (Cons c cs)
  show ?case
  proof (cases c)
    case (NewOrganizationalUnit scope cid props)
    then show ?thesis
      using Cons.IH by (simp add: synth_Cons_OU OrganizationalUnit_node del: synth.simps)
  next
    case (NewEnableAwsServiceAccess scope cid props)
    then show ?thesis
      using Cons.IH by (simp add: synth_Cons_ESA del: synth.simps)
  qed
qed

lemma synth_hasLogGroup:
  "map hasLogGroup (units (fst (synth w cs))) =
     (if isLogGroupConfigured w then map (\<lambda>_. False) (requestedUnits cs)
      else case requestedUnits cs of [] \<Rightarrow> [] | n # ns \<Rightarrow> True # map (\<lambda>_. False) ns)"
proof (induction cs arbitrary: w)
  case Nil
  show ?case by simp
next
  case (Cons c cs)
  show ?case
  proof (cases c)
    case (NewOrganizationalUnit scope cid props)
    then show ?thesis
      using Cons.IH [of "snd (OrganizationalUnit w scope cid props)"]
      by (simp add: synth_Cons_OU OrganizationalUnit_flag OrganizationalUnit_logGroup hasLogGroup_def
            del: synth.simps)
  next
    case (NewEnableAwsServiceAccess scope cid props)
    then show ?thesis
      using Cons.IH [of "snd (EnableAwsServiceAccess w scope cid props)"]
      by (simp add: synth_Cons_ESA EnableAwsServiceAccess_flag del: synth.simps)
  qed
qed

lemma synth_logGroups:
  "map logGroupNode (logGroups (fst (synth w cs))) =
     (if isLogGroupConfigured w then []
      else case requestedUnits cs of [] \<Rightarrow> [] | n # ns \<Rightarrow> [child n ''LogGroup''])"
proof (induction cs arbitrary: w)
  case Nil
  show ?case by (simp add: logGroups_def)
next
  case (Cons c cs)
  show ?case
  proof (cases c)
    case (NewOrganizationalUnit scope cid props)
    then show ?thesis
      using Cons.IH [of "snd (OrganizationalUnit w scope cid props)"]
      by (simp add: synth_Cons_OU OrganizationalUnit_flag OrganizationalUnit_logGroup logGroups_def
            del: synth.simps)
  next
    case (NewEnableAwsServiceAccess scope cid props)
    then show ?thesis
      using Cons.IH [of "snd (EnableAwsServiceAccess w scope cid props)"]
      by (simp add: synth_Cons_ESA EnableAwsServiceAccess_flag logGroups_def del: synth.simps)
  qed
qed

lemma construct_flag_mono:
  "isLogGroupConfigured w \<Longrightarrow> isLogGroupConfigured (snd (construct w c))"
  by (cases c) (simp_all add: case_prod_beta OrganizationalUnit_flag EnableAwsServiceAccess_flag)

lemma synth_flag_mono:
  "isLogGroupConfigured w \<Longrightarrow> isLogGroupConfigured (snd (synth w cs))"
  by (induction cs arbitrary: w) (simp_all add: synth_Cons construct_flag_mono del: synth.simps(2))

lemma synth_flag_after_unit:
  "requestedUnits cs \<noteq> [] \<Longrightarrow> isLogGroupConfigured (snd (synth w cs))"
proof (induction cs arbitrary: w)
  case Nil
  then show ?case by simp
next
  case (Cons c cs)
  show ?case
  proof (cases c)
    case (NewOrganizationalUnit scope cid props)
    then show ?thesis
      by (simp add: synth_Cons_OU synth_flag_mono OrganizationalUnit_flag del: synth.simps)
  next
    case (NewEnableAwsServiceAccess scope cid props)
    with Cons show ?thesis
      by (simp add: synth_Cons_ESA del: synth.simps)
  qed
qed

subsection \<open>The provider table\<close>

lemma find_append_first:
  "find P (xs @ ys) = (case find P xs of Some x \<Rightarrow> Some x | None \<Rightarrow> find P ys)"
  by (induction xs) auto

lemma getOrCreateProvider_node:
  "providerNode (fst (getOrCreateProvider w scope u pr)) =
     child (stackOf scope) (u @ ''CustomResourceProvider'')"
  by (auto simp: getOrCreateProvider_def Let_def tryFindChild_def split: option.split
        dest: find_Some_iff [THEN iffD1])

lemma getOrCreateProvider_lookup:
  "tryFindChild (snd (getOrCreateProvider w scope u pr))
     (child (stackOf scope) (u @ ''CustomResourceProvider'')) =
   Some (fst (getOrCreateProvider w scope u pr))"
  by (simp add: getOrCreateProvider_def Let_def tryFindChild_def find_append_first
        split: option.split)

lemma getOrCreateProvider_stable:
  "tryFindChild w n = Some p \<Longrightarrow>
   tryFindChild (snd (getOrCreateProvider w scope u pr)) n = Some p"
  by (simp add: getOrCreateProvider_def Let_def tryFindChild_def find_append_first
        split: option.split)

lemma getOrCreateProvider_providers:
  "providers (snd (getOrCreateProvider w scope u pr)) =
     (case tryFindChild w (child (stackOf scope) (u @ ''CustomResourceProvider'')) of
        Some p \<Rightarrow> providers w
      | None \<Rightarrow> providers w @
          [\<lparr>providerNode = child (stackOf scope) (u @ ''CustomResourceProvider''),
            providerProps = pr\<rparr>])"
  by (simp add: getOrCreateProvider_def Let_def split: option.split)

lemma child_stackOf_idem:
  "child (stackOf (child (stackOf scope) k)) k = child (stackOf scope) k"
  by (simp add: child_def stackOf_def)

lemma stackOf_child: "stackOf (child scope cid) = stackOf scope"
  by (simp add: child_def stackOf_def)

lemma getOrCreateProvider_wf_OU:
  assumes "providers_wf w"
  shows "providers_wf (snd (getOrCreateProvider w scope
            ''Custom::OrganizationsCreateOrganizationalUnit'' organizationalUnit_providerProps))"
proof (cases "tryFindChild w (child (stackOf scope)
          (''Custom::OrganizationsCreateOrganizationalUnit'' @ ''CustomResourceProvider''))")
  case None
  then have "child (stackOf scope)
      ''Custom::OrganizationsCreateOrganizationalUnitCustomResourceProvider''
        \<notin> providerNode ` set (providers w)"
    by (auto simp: tryFindChild_def find_None_iff)
  with assms None show ?thesis
    by (simp add: providers_wf_def getOrCreateProvider_providers
          organizationalUnit_providerNode_def child_stackOf_idem)
next
  case (Some p)
  with assms show ?thesis
    by (simp add: providers_wf_def getOrCreateProvider_providers)
qed

lemma getOrCreateProvider_wf_ESA:
  assumes "providers_wf w"
  shows "providers_wf (snd (getOrCreateProvider w scope
            ''Custom::OrganizationsEnableAwsServiceAccess'' enableAwsServiceAccess_providerProps))"
proof (cases "tryFindChild w (child (stackOf scope)
          (''Custom::OrganizationsEnableAwsServiceAccess'' @ ''CustomResourceProvider''))")
  case None
  then have "child (stackOf scope)
      ''Custom::OrganizationsEnableAwsServiceAccessCustomResourceProvider''
        \<notin> providerNode ` set (providers w)"
    by (auto simp: tryFindChild_def find_None_iff)
  with assms None show ?thesis
    by (simp add: providers_wf_def getOrCreateProvider_providers
          enableAwsServiceAccess_providerNode_def child_stackOf_idem)
next
  case (Some p)
  with assms show ?thesis
    by (simp add: providers_wf_def getOrCreateProvider_providers)
qed

lemma tryFindChild_member:
  "tryFindChild w n = Some p \<Longrightarrow> p \<in> set (providers w) \<and> providerNode p = n"
  by (auto simp: tryFindChild_def find_Some_iff)

lemma getOrCreateProvider_props_OU:
  assumes "providers_wf w"
  shows "providerProps (fst (getOrCreateProvider w scope
            ''Custom::OrganizationsCreateOrganizationalUnit'' organizationalUnit_providerProps))
         = organizationalUnit_providerProps"
proof -
  let ?w' = "snd (getOrCreateProvider w scope
            ''Custom::OrganizationsCreateOrganizationalUnit'' organizationalUnit_providerProps)"
  let ?p = "fst (getOrCreateProvider w scope
            ''Custom::OrganizationsCreateOrganizationalUnit'' organizationalUnit_providerProps)"
  have wf: "providers_wf ?w'" using assms by (rule getOrCreateProvider_wf_OU)
  have mem: "?p \<in> set (providers ?w')"
    using getOrCreateProvider_lookup [of w scope "''Custom::OrganizationsCreateOrganizationalUnit''"
        organizationalUnit_providerProps]
    by (simp add: tryFindChild_member)
  have nd: "providerNode ?p = child (stackOf scope)
      ''Custom::OrganizationsCreateOrganizationalUnitCustomResourceProvider''"
    by (simp add: getOrCreateProvider_node)
  from wf mem have "(providerNode ?p = organizationalUnit_providerNode (providerNode ?p) \<and>
          providerProps ?p = organizationalUnit_providerProps) \<or>
         (providerNode ?p = enableAwsServiceAccess_providerNode (providerNode ?p) \<and>
          providerProps ?p = enableAwsServiceAccess_providerProps)"
    unfolding providers_wf_def by blast
  then show ?thesis
    unfolding nd by (auto simp: enableAwsServiceAccess_providerNode_def child_def stackOf_def)
qed

lemma getOrCreateProvider_props_ESA:
  assumes "providers_wf w"
  shows "providerProps (fst (getOrCreateProvider w scope
            ''Custom::OrganizationsEnableAwsServiceAccess'' enableAwsServiceAccess_providerProps))
         = enableAwsServiceAccess_providerProps"
proof -
  let ?w' = "snd (getOrCreateProvider w scope
            ''Custom::OrganizationsEnableAwsServiceAccess'' enableAwsServiceAccess_providerProps)"
  let ?p = "fst (getOrCreateProvider w scope
            ''Custom::OrganizationsEnableAwsServiceAccess'' enableAwsServiceAccess_providerProps)"
  have wf: "providers_wf ?w'" using assms by (rule getOrCreateProvider_wf_ESA)
  have mem: "?p \<in> set (providers ?w')"
    using getOrCreateProvider_lookup [of w scope "''Custom::OrganizationsEnableAwsServiceAccess''"
        enableAwsServiceAccess_providerProps]
    by (simp add: tryFindChild_member)
  have nd: "providerNode ?p = child (stackOf scope)
      ''Custom::OrganizationsEnableAwsServiceAccessCustomResourceProvider''"
    by (simp add: getOrCreateProvider_node)
  from wf mem have "(providerNode ?p = organizationalUnit_providerNode (providerNode ?p) \<and>
          providerProps ?p = organizationalUnit_providerProps) \<or>
         (providerNode ?p = enableAwsServiceAccess_providerNode (providerNode ?p) \<and>
          providerProps ?p = enableAwsServiceAccess_providerProps)"
    unfolding providers_wf_def by blast
  then show ?thesis
    unfolding nd by (auto simp: organizationalUnit_providerNode_def child_def stackOf_def)
qed

lemma providers_wf_flag [simp]:
  "providers_wf (w\<lparr>isLogGroupConfigured := b\<rparr>) = providers_wf w"
  by (simp add: providers_wf_def)

lemma tryFindChild_flag [simp]:
  "tryFindChild (w\<lparr>isLogGroupConfigured := b\<rparr>) n = tryFindChild w n"
  by (simp add: tryFindChild_def)

lemma OrganizationalUnit_provider:
  "ouProvider (fst (OrganizationalUnit w scope cid props)) =
     fst (getOrCreateProvider w (child scope cid)
            ''Custom::OrganizationsCreateOrganizationalUnit'' organizationalUnit_providerProps)"
  by (simp add: OrganizationalUnit_def Let_def case_prod_beta)

lemma OrganizationalUnit_world:
  "snd (OrganizationalUnit w scope cid props) =
     (snd (getOrCreateProvider w (child scope cid)
            ''Custom::OrganizationsCreateOrganizationalUnit'' organizationalUnit_providerProps))
       \<lparr>isLogGroupConfigured := True\<rparr>"
  using getOrCreateProvider_flag [of w "child scope cid"
      "''Custom::OrganizationsCreateOrganizationalUnit''" organizationalUnit_providerProps]
  by (simp add: OrganizationalUnit_def Let_def case_prod_beta)

lemma EnableAwsServiceAccess_provider:
  "esaProvider (fst (EnableAwsServiceAccess w scope cid props)) =
     fst (getOrCreateProvider w (child scope cid)
            ''Custom::OrganizationsEnableAwsServiceAccess'' enableAwsServiceAccess_providerProps)"
  by (simp add: EnableAwsServiceAccess_def Let_def case_prod_beta)

lemma EnableAwsServiceAccess_world:
  "snd (EnableAwsServiceAccess w scope cid props) =
     snd (getOrCreateProvider w (child scope cid)
            ''Custom::OrganizationsEnableAwsServiceAccess'' enableAwsServiceAccess_providerProps)"
  by (simp add: EnableAwsServiceAccess_def Let_def case_prod_beta)

lemma OrganizationalUnit_token:
  "serviceToken (ouResource (fst (OrganizationalUnit w scope cid props))) =
     serviceToken_of (ouProvider (fst (OrganizationalUnit w scope cid props)))"
  by (simp add: OrganizationalUnit_def Let_def case_prod_beta addDependency_def)

lemma EnableAwsServiceAccess_token:
  "serviceToken (esaResource (fst (EnableAwsServiceAccess w scope cid props))) =
     serviceToken_of (esaProvider (fst (EnableAwsServiceAccess w scope cid props)))"
  by (simp add: EnableAwsServiceAccess_def Let_def case_prod_beta)

lemma construct_wf: "providers_wf w \<Longrightarrow> providers_wf (snd (construct w c))"
  by (cases c)
     (simp_all add: case_prod_beta OrganizationalUnit_world EnableAwsServiceAccess_world
        getOrCreateProvider_wf_OU getOrCreateProvider_wf_ESA)

lemma construct_stable:
  "tryFindChild w n = Some p \<Longrightarrow> tryFindChild (snd (construct w c)) n = Some p"
  by (cases c)
     (simp_all add: case_prod_beta OrganizationalUnit_world EnableAwsServiceAccess_world
        getOrCreateProvider_stable)

lemma synth_wf: "providers_wf w \<Longrightarrow> providers_wf (snd (synth w cs))"
  by (induction cs arbitrary: w) (simp_all add: synth_Cons construct_wf del: synth.simps(2))

lemma synth_stable:
  "tryFindChild w n = Some p \<Longrightarrow> tryFindChild (snd (synth w cs)) n = Some p"
  by (induction cs arbitrary: w) (simp_all add: synth_Cons construct_stable del: synth.simps(2))

lemma initial_world_wf: "providers_wf initial_world"
  by (simp add: providers_wf_def initial_world_def)

lemma synth_units_provider:
  "providers_wf w \<Longrightarrow> u \<in> set (units (fst (synth w cs))) \<Longrightarrow>
     providerProps (ouProvider u) = organizationalUnit_providerProps \<and>
     serviceToken (ouResource u) = serviceToken_of (ouProvider u) \<and>
     tryFindChild (snd (synth w cs)) (organizationalUnit_providerNode (ouNode u)) =
       Some (ouProvider u)"
proof (induction cs arbitrary: w)
  case Nil
  then show ?case by simp
next
  case (Cons c cs)
  show ?case
  proof (cases c)
    case (NewOrganizationalUnit scope cid props)
    let ?r = "OrganizationalUnit w scope cid props"
    from Cons.prems(2) NewOrganizationalUnit
    consider "u = fst ?r" | "u \<in> set (units (fst (synth (snd ?r) cs)))"
      by (auto simp: synth_Cons_OU simp del: synth.simps)
    then show ?thesis
    proof cases
      case 1
      have "tryFindChild (snd ?r) (organizationalUnit_providerNode (ouNode u)) =
              Some (ouProvider u)"
        unfolding 1 OrganizationalUnit_world OrganizationalUnit_provider OrganizationalUnit_node
        using getOrCreateProvider_lookup [of w "child scope cid"
            "''Custom::OrganizationsCreateOrganizationalUnit''" organizationalUnit_providerProps]
        by (simp add: organizationalUnit_providerNode_def stackOf_child)
      then have "tryFindChild (snd (synth (snd ?r) cs))
          (organizationalUnit_providerNode (ouNode u)) = Some (ouProvider u)"
        by (rule synth_stable)
      moreover have "providerProps (ouProvider u) = organizationalUnit_providerProps"
        unfolding 1 OrganizationalUnit_provider
        using Cons.prems(1) by (rule getOrCreateProvider_props_OU)
      moreover have "serviceToken (ouResource u) = serviceToken_of (ouProvider u)"
        unfolding 1 by (rule OrganizationalUnit_token)
      ultimately show ?thesis
        using NewOrganizationalUnit by (simp add: synth_Cons_OU del: synth.simps)
    next
      case 2
      have "providers_wf (snd ?r)"
        using construct_wf [OF Cons.prems(1), of c] NewOrganizationalUnit
        by (simp add: case_prod_beta)
      from Cons.IH [OF this 2] show ?thesis
        using NewOrganizationalUnit by (simp add: synth_Cons_OU del: synth.simps)
    qed
  next
    case (NewEnableAwsServiceAccess scope cid props)
    let ?r = "EnableAwsServiceAccess w scope cid props"
    from Cons.prems(2) NewEnableAwsServiceAccess
    have 2: "u \<in> set (units (fst (synth (snd ?r) cs)))"
      by (auto simp: synth_Cons_ESA simp del: synth.simps)
    have "providers_wf (snd ?r)"
      using construct_wf [OF Cons.prems(1), of c] NewEnableAwsServiceAccess
      by (simp add: case_prod_beta)
    from Cons.IH [OF this 2] show ?thesis
      using NewEnableAwsServiceAccess by (simp add: synth_Cons_ESA del: synth.simps)
  qed
qed

lemma synth_grants_provider:
  "providers_wf w \<Longrightarrow> e \<in> set (grants (fst (synth w cs))) \<Longrightarrow>
     providerProps (esaProvider e) = enableAwsServiceAccess_providerProps \<and>
     serviceToken (esaResource e) = serviceToken_of (esaProvider e) \<and>
     tryFindChild (snd (synth w cs)) (enableAwsServiceAccess_providerNode (esaNode e)) =
       Some (esaProvider e)"
proof (induction cs arbitrary: w)
  case Nil
  then show ?case by simp
next
  case (Cons c cs)
  show ?case
  proof (cases c)
    case (NewEnableAwsServiceAccess scope cid props)
    let ?r = "EnableAwsServiceAccess w scope cid props"
    from Cons.prems(2) NewEnableAwsServiceAccess
    consider "e = fst ?r" | "e \<in> set (grants (fst (synth (snd ?r) cs)))"
      by (auto simp: synth_Cons_ESA simp del: synth.simps)
    then show ?thesis
    proof cases
      case 1
      have "tryFindChild (snd ?r) (enableAwsServiceAccess_providerNode (esaNode e)) =
              Some (esaProvider e)"
        unfolding 1 EnableAwsServiceAccess_world EnableAwsServiceAccess_provider
          EnableAwsServiceAccess_node
        using getOrCreateProvider_lookup [of w "child scope cid"
            "''Custom::OrganizationsEnableAwsServiceAccess''" enableAwsServiceAccess_providerProps]
        by (simp add: enableAwsServiceAccess_providerNode_def stackOf_child)
      then have "tryFindChild (snd (synth (snd ?r) cs))
          (enableAwsServiceAccess_providerNode (esaNode e)) = Some (esaProvider e)"
        by (rule synth_stable)
      moreover have "providerProps (esaProvider e) = enableAwsServiceAccess_providerProps"
        unfolding 1 EnableAwsServiceAccess_provider
        using Cons.prems(1) by (rule getOrCreateProvider_props_ESA)
      moreover have "serviceToken (esaResource e) = serviceToken_of (esaProvider e)"
        unfolding 1 by (rule EnableAwsServiceAccess_token)
      ultimately show ?thesis
        using NewEnableAwsServiceAccess by (simp add: synth_Cons_ESA del: synth.simps)
    next
      case 2
      have "providers_wf (snd ?r)"
        using construct_wf [OF Cons.prems(1), of c] NewEnableAwsServiceAccess
        by (simp add: case_prod_beta)
      from Cons.IH [OF this 2] show ?thesis
        using NewEnableAwsServiceAccess by (simp add: synth_Cons_ESA del: synth.simps)
    qed
  next
    case (NewOrganizationalUnit scope cid props)
    let ?r = "OrganizationalUnit w scope cid props"
    from Cons.prems(2) NewOrganizationalUnit
    have 2: "e \<in> set (grants (fst (synth (snd ?r) cs)))"
      by (auto simp: synth_Cons_OU simp del: synth.simps)
    have "providers_wf (snd ?r)"
      using construct_wf [OF Cons.prems(1), of c] NewOrganizationalUnit
      by (simp add: case_prod_beta)
    from Cons.IH [OF this 2] show ?thesis
      using NewOrganizationalUnit by (simp add: synth_Cons_OU del: synth.simps)
  qed
qed

subsection \<open>The stages of the pipeline\<close>

lemma stages_addStage: "stages (addStage p st) = stages p @ [st]"
  by (simp add: addStage_def)

lemma AcceleratorPipeline_stages:
  "stages (pipeline_resource (AcceleratorPipeline env stg props)) =
     [\<lparr>stageName = ''Source'',
       actions =
         [CodeCommitSourceAction
            \<lparr>actionName = ''Source'', runOrder = None, role = None,
             repository = Repository_fromRepositoryName ''SourceRepo'' (sourceRepositoryName props),
             branch = sourceBranchName props,
             output_artifact = Artifact ''Source'',
             trigger = NONE\<rparr>,
          CodeCommitSourceAction
            \<lparr>actionName = ''Configuration'', runOrder = None, role = None,
             repository = ConfigRepository_getRepository
               (configRepository (AcceleratorPipeline env stg props)),
             branch = ''main'',
             output_artifact = Artifact ''Config'',
             trigger = NONE\<rparr>]\<rparr>,
      \<lparr>stageName = ''Build'',
       actions =
         [CodeBuildAction
            \<lparr>actionName = ''Build'', runOrder = None,
             role = Some (pipelineRole (AcceleratorPipeline env stg props)),
             project = buildProject (AcceleratorPipeline env stg props),
             input_artifact = Artifact ''Source'',
             extraInputs = None,
             outputs = Some [Artifact ''Build''],
             environmentVariables = None\<rparr>]\<rparr>,
      \<lparr>stageName = ''Bootstrap'',
       actions =
         [CodeBuildAction
            (createToolkitStage (AcceleratorPipeline env stg props) ''Bootstrap''
               (Concat [Literal ''bootstrap --partition '', partition_stack env]) None)]\<rparr>,
      \<lparr>stageName = ''Logging'',
       actions =
         [CodeBuildAction
            (createToolkitStage (AcceleratorPipeline env stg props) ''Logging''
               (Literal (''deploy --stage '' @ LOGGING stg)) None)]\<rparr>,
      \<lparr>stageName = ''Organization'',
       actions =
         [CodeBuildAction
            (createToolkitStage (AcceleratorPipeline env stg props) ''Organizations''
               (Literal (''deploy --stage '' @ ORGANIZATIONS stg)) None)]\<rparr>,
      \<lparr>stageName = ''SecurityAudit'',
       actions =
         [CodeBuildAction
            (createToolkitStage (AcceleratorPipeline env stg props) ''SecurityAudit''
               (Literal (''deploy --stage '' @ SECURITY_AUDIT stg)) None)]\<rparr>,
      \<lparr>stageName = ''Deploy'',
       actions =
         [CodeBuildAction
            (createToolkitStage (AcceleratorPipeline env stg props) ''Security''
               (Literal (''deploy --stage '' @ SECURITY stg)) (Some 1))]\<rparr>]"
  by (simp add: AcceleratorPipeline_def Let_def addStage_def createToolkitStage_def
        accelerator_pipeline_fields.extend_def)

section \<open>The claims\<close>

text \<open>
  Claim C1. In a synthesis pass that starts with the static flag unset, the organizational units
  produced are those requested, in order; the first of them has a log group and no later
  one has; the log groups of the whole pass are exactly the child \<open>LogGroup\<close> of the
  first requested unit when there is one, and none otherwise, so their number is one as
  soon as one unit is constructed, however many follow. From any starting state a pass
  creates at most one log group.
\<close>

theorem log_group_created_once:
  "map ouNode (units (fst (synth initial_world cs))) = requestedUnits cs \<and>
   map hasLogGroup (units (fst (synth initial_world cs))) =
     (case requestedUnits cs of [] \<Rightarrow> [] | n # ns \<Rightarrow> True # map (\<lambda>_. False) ns) \<and>
   map logGroupNode (logGroups (fst (synth initial_world cs))) =
     (case requestedUnits cs of [] \<Rightarrow> [] | n # ns \<Rightarrow> [child n ''LogGroup'']) \<and>
   length (logGroups (fst (synth initial_world cs))) = (if requestedUnits cs = [] then 0 else 1) \<and>
   length (logGroups (fst (synth w cs))) \<le> 1"
proof -
  have f: "\<not> isLogGroupConfigured initial_world" by (simp add: initial_world_def)
  have a: "map ouNode (units (fst (synth initial_world cs))) = requestedUnits cs"
    by (rule synth_unit_nodes)
  have b: "map hasLogGroup (units (fst (synth initial_world cs))) =
     (case requestedUnits cs of [] \<Rightarrow> [] | n # ns \<Rightarrow> True # map (\<lambda>_. False) ns)"
    using f by (simp add: synth_hasLogGroup)
  have c: "map logGroupNode (logGroups (fst (synth initial_world cs))) =
     (case requestedUnits cs of [] \<Rightarrow> [] | n # ns \<Rightarrow> [child n ''LogGroup''])"
    using f by (simp add: synth_logGroups)
  have "length (map logGroupNode (logGroups (fst (synth initial_world cs)))) =
          (if requestedUnits cs = [] then 0 else 1)"
    unfolding c by (simp split: list.split)
  then have d: "length (logGroups (fst (synth initial_world cs))) =
          (if requestedUnits cs = [] then 0 else 1)" by simp
  have "length (map logGroupNode (logGroups (fst (synth w cs)))) \<le> 1"
    unfolding synth_logGroups by (simp split: list.split)
  then have e: "length (logGroups (fst (synth w cs))) \<le> 1" by simp
  from a b c d e show ?thesis by blast
qed

theorem log_group_created_once_witness:
  "map hasLogGroup (units (fst (synth initial_world demo_pass))) = [True, False] \<and>
   map logGroupNode (logGroups (fst (synth initial_world demo_pass))) =
     [Node ''Management'' [''Security'', ''LogGroup'']]"
  using log_group_created_once [of demo_pass initial_world]
  by (simp add: demo_pass_def child_def)

text \<open>
  Claim C2. The constructor leaves exactly seven stages in the pipeline, named Source, Build,
  Bootstrap, Logging, Organization, SecurityAudit and Deploy in this order, with the
  actions Source and Configuration, Build, Bootstrap, Logging, Organizations,
  SecurityAudit and Security; \<open>addStage\<close> puts a stage after the stages already there,
  so the order of the stages is the order of the calls.
\<close>

theorem seven_stages_in_order:
  "map stageName (stages (pipeline_resource (AcceleratorPipeline env stg props))) =
     [''Source'', ''Build'', ''Bootstrap'', ''Logging'', ''Organization'', ''SecurityAudit'',
      ''Deploy''] \<and>
   length (stages (pipeline_resource (AcceleratorPipeline env stg props))) = 7 \<and>
   map (\<lambda>s. map actionName_of (actions s))
       (stages (pipeline_resource (AcceleratorPipeline env stg props))) =
     [[''Source'', ''Configuration''], [''Build''], [''Bootstrap''], [''Logging''],
      [''Organizations''], [''SecurityAudit''], [''Security'']] \<and>
   stages (addStage p st) = stages p @ [st]"
  by (simp add: AcceleratorPipeline_stages stages_addStage createToolkitStage_def)

theorem seven_stages_in_order_witness:
  "length (stages (pipeline_resource (AcceleratorPipeline demo_env demo_stage demo_props))) = 7"
  using seven_stages_in_order [of demo_env demo_stage demo_props]
  by simp

text \<open>
  Claim C3. Stage by stage, the run orders of the actions are undefined everywhere but in the last
  stage, Deploy, whose single action has run order 1: an action of the stage Deploy has
  run order 1, and an action of any other stage has none.
\<close>

theorem run_order_only_in_deploy:
  "map (\<lambda>s. (stageName s, map runOrder_of (actions s)))
       (stages (pipeline_resource (AcceleratorPipeline env stg props))) =
     [(''Source'', [None, None]), (''Build'', [None]), (''Bootstrap'', [None]),
      (''Logging'', [None]), (''Organization'', [None]), (''SecurityAudit'', [None]),
      (''Deploy'', [Some 1])] \<and>
   stageName (last (stages (pipeline_resource (AcceleratorPipeline env stg props)))) = ''Deploy'' \<and>
   (\<forall>s \<in> set (stages (pipeline_resource (AcceleratorPipeline env stg props))).
    \<forall>a \<in> set (actions s).
      (stageName s = ''Deploy'' \<longrightarrow> runOrder_of a = Some 1) \<and>
      (stageName s \<noteq> ''Deploy'' \<longrightarrow> runOrder_of a = None))"
  by (simp add: AcceleratorPipeline_stages createToolkitStage_def)

theorem run_order_only_in_deploy_witness:
  "concat (map (\<lambda>s. map runOrder_of (actions s))
     (stages (pipeline_resource (AcceleratorPipeline demo_env demo_stage demo_props)))) =
   [None, None, None, None, None, None, None, Some 1]"
  using run_order_only_in_deploy [of demo_env demo_stage demo_props]
  by (simp add: AcceleratorPipeline_stages createToolkitStage_def)

text \<open>
  Claim C4. The provider props of EnableAwsServiceAccess hold a single statement, with effect Allow,
  resource \<open>*\<close> and the two actions \<open>organizations:DisableAWSServiceAccess\<close> and
  \<open>organizations:EnableAwsServiceAccess\<close>; and in every synthesis pass the provider of
  every EnableAwsServiceAccess instance carries exactly this statement, also when the
  provider was already attached to the stack by an earlier construction.
\<close>

theorem enableAwsServiceAccess_policy:
  "policyStatements enableAwsServiceAccess_providerProps =
     [\<lparr>Effect = ''Allow'',
       Action = [''organizations:DisableAWSServiceAccess'',
                 ''organizations:EnableAwsServiceAccess''],
       Resource = ''*''\<rparr>] \<and>
   (\<forall>e \<in> set (grants (fst (synth initial_world cs))).
      policyStatements (providerProps (esaProvider e)) =
        [\<lparr>Effect = ''Allow'',
          Action = [''organizations:DisableAWSServiceAccess'',
                    ''organizations:EnableAwsServiceAccess''],
          Resource = ''*''\<rparr>])"
proof -
  have a: "policyStatements enableAwsServiceAccess_providerProps =
     [\<lparr>Effect = ''Allow'',
       Action = [''organizations:DisableAWSServiceAccess'',
                 ''organizations:EnableAwsServiceAccess''],
       Resource = ''*''\<rparr>]"
    by (simp add: enableAwsServiceAccess_providerProps_def)
  have "providerProps (esaProvider e) = enableAwsServiceAccess_providerProps"
    if "e \<in> set (grants (fst (synth initial_world cs)))" for e
    using synth_grants_provider [OF initial_world_wf that] by simp
  with a show ?thesis by simp
qed

theorem enableAwsServiceAccess_policy_witness:
  "map (\<lambda>e. map Action (policyStatements (providerProps (esaProvider e))))
     (grants (fst (synth initial_world demo_pass))) =
   [[[''organizations:DisableAWSServiceAccess'', ''organizations:EnableAwsServiceAccess'']],
    [[''organizations:DisableAWSServiceAccess'', ''organizations:EnableAwsServiceAccess'']]]"
  using enableAwsServiceAccess_policy [of demo_pass]
  by (simp add: eval_simps)

text \<open>
  Claim C5. The provider props of OrganizationalUnit hold a single Allow statement on resource \<open>*\<close>
  with the four actions CreateOrganizationalUnit, ListOrganizationalUnitsForParent,
  ListRoots and UpdateOrganizationalUnit of \<open>organizations\<close>; and in every synthesis pass
  the provider of every OrganizationalUnit instance carries exactly this statement.
\<close>

theorem organizationalUnit_policy:
  "policyStatements organizationalUnit_providerProps =
     [\<lparr>Effect = ''Allow'',
       Action = [''organizations:CreateOrganizationalUnit'',
                 ''organizations:ListOrganizationalUnitsForParent'',
                 ''organizations:ListRoots'',
                 ''organizations:UpdateOrganizationalUnit''],
       Resource = ''*''\<rparr>] \<and>
   (\<forall>u \<in> set (units (fst (synth initial_world cs))).
      policyStatements (providerProps (ouProvider u)) =
        [\<lparr>Effect = ''Allow'',
          Action = [''organizations:CreateOrganizationalUnit'',
                    ''organizations:ListOrganizationalUnitsForParent'',
                    ''organizations:ListRoots'',
                    ''organizations:UpdateOrganizationalUnit''],
          Resource = ''*''\<rparr>])"
proof -
  have a: "policyStatements organizationalUnit_providerProps =
     [\<lparr>Effect = ''Allow'',
       Action = [''organizations:CreateOrganizationalUnit'',
                 ''organizations:ListOrganizationalUnitsForParent'',
                 ''organizations:ListRoots'',
                 ''organizations:UpdateOrganizationalUnit''],
       Resource = ''*''\<rparr>]"
    by (simp add: organizationalUnit_providerProps_def)
  have "providerProps (ouProvider u) = organizationalUnit_providerProps"
    if "u \<in> set (units (fst (synth initial_world cs)))" for u
    using synth_units_provider [OF initial_world_wf that] by simp
  with a show ?thesis by simp
qed

theorem organizationalUnit_policy_witness:
  "map (\<lambda>u. map Action (policyStatements (providerProps (ouProvider u))))
     (units (fst (synth initial_world demo_pass))) =
   [[[''organizations:CreateOrganizationalUnit'',
      ''organizations:ListOrganizationalUnitsForParent'',
      ''organizations:ListRoots'',
      ''organizations:UpdateOrganizationalUnit'']],
    [[''organizations:CreateOrganizationalUnit'',
      ''organizations:ListOrganizationalUnitsForParent'',
      ''organizations:ListRoots'',
      ''organizations:UpdateOrganizationalUnit'']]]"
  using organizationalUnit_policy [of demo_pass]
  by (simp add: eval_simps)

text \<open>
  Claim C6. The properties of the custom resource of an OrganizationalUnit are exactly
  \<open>partition\<close>, \<open>name\<close> and \<open>path\<close>, with the partition pseudo parameter and the
  name and path of the props; changing the encryption key and the log retention of the
  props leaves them unchanged.
\<close>

theorem organizationalUnit_properties:
  "properties (ouResource (fst (OrganizationalUnit w scope cid props))) =
     [(''partition'', Aws_PARTITION),
      (''name'', Literal (name props)),
      (''path'', Literal (path props))] \<and>
   properties (ouResource (fst (OrganizationalUnit w scope cid
       (props\<lparr>kmsKey := k, logRetentionInDays := r\<rparr>)))) =
     properties (ouResource (fst (OrganizationalUnit w scope cid props)))"
  by (simp add: OrganizationalUnit_def Let_def case_prod_beta addDependency_def)

theorem organizationalUnit_properties_witness:
  "properties (ouResource (fst (OrganizationalUnit initial_world (Node ''Management'' [])
      ''Security''
      \<lparr>name = ''Security'', path = ''/'', kmsKey = demo_key, logRetentionInDays = 365\<rparr>))) =
     [(''partition'', PseudoParameter ''AWS::Partition''),
      (''name'', Literal ''Security''),
      (''path'', Literal ''/'')]"
  using organizationalUnit_properties [of initial_world "Node ''Management'' []" "''Security''"
      "\<lparr>name = ''Security'', path = ''/'', kmsKey = demo_key, logRetentionInDays = 365\<rparr>"]
  by (simp add: Aws_PARTITION_def)

text \<open>
  Claim C7. An OrganizationalUnit exposes the \<open>ref\<close> of its custom resource (its child
  \<open>Resource\<close>) as \<open>organizationalUnitId\<close>, the attribute \<open>arn\<close> of that resource as
  \<open>organizationalUnitArn\<close>, and the name and path of its props; an
  EnableAwsServiceAccess exposes the \<open>ref\<close> of its custom resource as \<open>id\<close>.
\<close>

theorem exposed_identifiers:
  "organizationalUnitId (fst (OrganizationalUnit w scope cid props)) =
     ref (ouResource (fst (OrganizationalUnit w scope cid props))) \<and>
   organizationalUnitArn (fst (OrganizationalUnit w scope cid props)) =
     getAttString (ouResource (fst (OrganizationalUnit w scope cid props))) ''arn'' \<and>
   organizationalUnitName (fst (OrganizationalUnit w scope cid props)) = name props \<and>
   organizationalUnitPath (fst (OrganizationalUnit w scope cid props)) = path props \<and>
   resourceNode (ouResource (fst (OrganizationalUnit w scope cid props))) =
     child (child scope cid) ''Resource'' \<and>
   id_esa (fst (EnableAwsServiceAccess w scope cid eprops)) =
     ref (esaResource (fst (EnableAwsServiceAccess w scope cid eprops))) \<and>
   resourceNode (esaResource (fst (EnableAwsServiceAccess w scope cid eprops))) =
     child (child scope cid) ''Resource''"
  by (simp add: OrganizationalUnit_def EnableAwsServiceAccess_def Let_def case_prod_beta
        addDependency_def ref_def getAttString_def)

theorem exposed_identifiers_witness:
  "organizationalUnitId (fst (OrganizationalUnit initial_world (Node ''Management'' [])
      ''Security''
      \<lparr>name = ''Security'', path = ''/'', kmsKey = demo_key, logRetentionInDays = 365\<rparr>)) =
     Ref (Node ''Management'' [''Security'', ''Resource'']) \<and>
   organizationalUnitArn (fst (OrganizationalUnit initial_world (Node ''Management'' [])
      ''Security''
      \<lparr>name = ''Security'', path = ''/'', kmsKey = demo_key, logRetentionInDays = 365\<rparr>)) =
     GetAtt (Node ''Management'' [''Security'', ''Resource'']) ''arn'' \<and>
   id_esa (fst (EnableAwsServiceAccess initial_world (Node ''Management'' []) ''ConfigAccess''
      \<lparr>servicePrincipal = ''config.amazonaws.com''\<rparr>)) =
     Ref (Node ''Management'' [''ConfigAccess'', ''Resource''])"
  using exposed_identifiers [of initial_world "Node ''Management'' []" "''Security''"
      "\<lparr>name = ''Security'', path = ''/'', kmsKey = demo_key, logRetentionInDays = 365\<rparr>"]
    exposed_identifiers [of initial_world "Node ''Management'' []" "''ConfigAccess''" _
      "\<lparr>servicePrincipal = ''config.amazonaws.com''\<rparr>"]
  by (simp add: ref_def getAttString_def child_def)

text \<open>
  Claim C8. An OrganizationalUnit constructed after a pass in which a unit has been constructed has
  no log group, and its custom resource has no dependency; its encryption key and log
  retention change neither the unit nor the state; and the unit is the one a first
  construction would produce in the same place (same provider, same custom resource,
  same exposed identifiers) but for the log group and the dependency on it, with the
  same resulting state.
\<close>

theorem later_unit_frame:
  assumes "requestedUnits cs \<noteq> []"
  shows
    "ouLogGroup (fst (OrganizationalUnit (snd (synth initial_world cs)) scope cid props)) = None \<and>
     dependencies (ouResource
       (fst (OrganizationalUnit (snd (synth initial_world cs)) scope cid props))) = [] \<and>
     OrganizationalUnit (snd (synth initial_world cs)) scope cid
         (props\<lparr>kmsKey := k, logRetentionInDays := r\<rparr>) =
       OrganizationalUnit (snd (synth initial_world cs)) scope cid props \<and>
     fst (OrganizationalUnit (snd (synth initial_world cs)) scope cid props) =
       (fst (OrganizationalUnit
          ((snd (synth initial_world cs))\<lparr>isLogGroupConfigured := False\<rparr>) scope cid props))
         \<lparr>ouLogGroup := None,
          ouResource := (ouResource (fst (OrganizationalUnit
             ((snd (synth initial_world cs))\<lparr>isLogGroupConfigured := False\<rparr>) scope cid props)))
             \<lparr>dependencies := []\<rparr>\<rparr> \<and>
     snd (OrganizationalUnit (snd (synth initial_world cs)) scope cid props) =
       snd (OrganizationalUnit
          ((snd (synth initial_world cs))\<lparr>isLogGroupConfigured := False\<rparr>) scope cid props)"
proof -
  let ?w = "snd (synth initial_world cs)"
  have f: "isLogGroupConfigured ?w" using assms by (rule synth_flag_after_unit)
  have g: "isLogGroupConfigured (snd (getOrCreateProvider ?w sc u pr))" for sc u pr
    using f by (simp add: getOrCreateProvider_flag)
  have eq: "getOrCreateProvider (?w\<lparr>isLogGroupConfigured := False\<rparr>) sc u pr =
      (fst (getOrCreateProvider ?w sc u pr),
       (snd (getOrCreateProvider ?w sc u pr))\<lparr>isLogGroupConfigured := False\<rparr>)" for sc u pr
    by (simp add: getOrCreateProvider_def Let_def split: option.split)
  have h: "w'\<lparr>isLogGroupConfigured := True\<rparr> = w'" if "isLogGroupConfigured w'" for w' :: world
    using that by simp
  show ?thesis
    using g by (simp add: OrganizationalUnit_def Let_def case_prod_beta eq addDependency_def
        ref_def getAttString_def h)
qed

theorem later_unit_frame_witness:
  "requestedUnits demo_pass \<noteq> [] \<and>
   ouLogGroup (fst (OrganizationalUnit (snd (synth initial_world demo_pass))
      (Node ''Management'' []) ''Workloads''
      \<lparr>name = ''Workloads'', path = ''/'', kmsKey = demo_key, logRetentionInDays = 30\<rparr>)) = None"
proof -
  have h: "requestedUnits demo_pass \<noteq> []" by (simp add: demo_pass_def)
  from later_unit_frame [OF h] h show ?thesis by simp
qed

text \<open>
  Claim C9. In every synthesis pass, each OrganizationalUnit uses the provider that its stack holds
  under the id \<open>Custom::OrganizationsCreateOrganizationalUnitCustomResourceProvider\<close> and
  each EnableAwsServiceAccess the one under
  \<open>Custom::OrganizationsEnableAwsServiceAccessCustomResourceProvider\<close>, the service token
  of its custom resource is that provider's, no two providers sit at the same node, and
  two instances of one class in the same stack have the same provider and the same
  service token.
\<close>

theorem providers_shared_per_stack:
  "(\<forall>u \<in> set (units (fst (synth initial_world cs))).
      tryFindChild (snd (synth initial_world cs)) (organizationalUnit_providerNode (ouNode u)) =
        Some (ouProvider u) \<and>
      serviceToken (ouResource u) = serviceToken_of (ouProvider u)) \<and>
   (\<forall>e \<in> set (grants (fst (synth initial_world cs))).
      tryFindChild (snd (synth initial_world cs)) (enableAwsServiceAccess_providerNode (esaNode e)) =
        Some (esaProvider e) \<and>
      serviceToken (esaResource e) = serviceToken_of (esaProvider e)) \<and>
   distinct (map providerNode (providers (snd (synth initial_world cs)))) \<and>
   (\<forall>u \<in> set (units (fst (synth initial_world cs))).
    \<forall>u' \<in> set (units (fst (synth initial_world cs))).
      nodeStack (ouNode u) = nodeStack (ouNode u') \<longrightarrow>
        ouProvider u = ouProvider u' \<and>
        serviceToken (ouResource u) = serviceToken (ouResource u')) \<and>
   (\<forall>e \<in> set (grants (fst (synth initial_world cs))).
    \<forall>e' \<in> set (grants (fst (synth initial_world cs))).
      nodeStack (esaNode e) = nodeStack (esaNode e') \<longrightarrow>
        esaProvider e = esaProvider e' \<and>
        serviceToken (esaResource e) = serviceToken (esaResource e'))"
proof -
  let ?xs = "fst (synth initial_world cs)"
  let ?w = "snd (synth initial_world cs)"
  have U: "tryFindChild ?w (organizationalUnit_providerNode (ouNode u)) = Some (ouProvider u) \<and>
      serviceToken (ouResource u) = serviceToken_of (ouProvider u)"
    if "u \<in> set (units ?xs)" for u
    using synth_units_provider [OF initial_world_wf that] by simp
  have E: "tryFindChild ?w (enableAwsServiceAccess_providerNode (esaNode e)) = Some (esaProvider e) \<and>
      serviceToken (esaResource e) = serviceToken_of (esaProvider e)"
    if "e \<in> set (grants ?xs)" for e
    using synth_grants_provider [OF initial_world_wf that] by simp
  have D: "distinct (map providerNode (providers ?w))"
    using synth_wf [OF initial_world_wf, of cs] by (simp add: providers_wf_def)
  have UU: "ouProvider u = ouProvider u' \<and>
        serviceToken (ouResource u) = serviceToken (ouResource u')"
    if "u \<in> set (units ?xs)" "u' \<in> set (units ?xs)" "nodeStack (ouNode u) = nodeStack (ouNode u')"
    for u u'
  proof -
    have "organizationalUnit_providerNode (ouNode u) = organizationalUnit_providerNode (ouNode u')"
      using that(3) by (simp add: organizationalUnit_providerNode_def stackOf_def)
    with U [OF that(1)] U [OF that(2)] show ?thesis by simp
  qed
  have EE: "esaProvider e = esaProvider e' \<and>
        serviceToken (esaResource e) = serviceToken (esaResource e')"
    if "e \<in> set (grants ?xs)" "e' \<in> set (grants ?xs)"
       "nodeStack (esaNode e) = nodeStack (esaNode e')"
    for e e'
  proof -
    have "enableAwsServiceAccess_providerNode (esaNode e) =
          enableAwsServiceAccess_providerNode (esaNode e')"
      using that(3) by (simp add: enableAwsServiceAccess_providerNode_def stackOf_def)
    with E [OF that(1)] E [OF that(2)] show ?thesis by simp
  qed
  from U E D UU EE show ?thesis by blast
qed

theorem providers_shared_per_stack_witness:
  "map (\<lambda>u. serviceToken (ouResource u)) (units (fst (synth initial_world demo_pass))) =
     [GetAtt (Node ''Management''
        [''Custom::OrganizationsCreateOrganizationalUnitCustomResourceProvider'', ''Handler''])
        ''Arn'',
      GetAtt (Node ''Management''
        [''Custom::OrganizationsCreateOrganizationalUnitCustomResourceProvider'', ''Handler''])
        ''Arn''] \<and>
   map (\<lambda>e. serviceToken (esaResource e)) (grants (fst (synth initial_world demo_pass))) =
     [GetAtt (Node ''Management''
        [''Custom::OrganizationsEnableAwsServiceAccessCustomResourceProvider'', ''Handler''])
        ''Arn'',
      GetAtt (Node ''Management''
        [''Custom::OrganizationsEnableAwsServiceAccessCustomResourceProvider'', ''Handler''])
        ''Arn''] \<and>
   length (providers (snd (synth initial_world demo_pass))) = 2"
  using providers_shared_per_stack [of demo_pass]
  by (simp add: eval_simps)

text \<open>
  Claim C10. An action made by \<open>createToolkitStage\<close> has the toolkit project, the build output as
  input, the configuration artifact as only extra input and the pipeline role of the
  object; two such actions of one object are equal once the action name, the run order and
  the value of \<open>CDK_OPTIONS\<close> of one are put into the other. The CodeBuild actions of
  the stages after Build are the five toolkit actions Bootstrap, Logging, Organizations,
  SecurityAudit and Security; the build output is the output of the Build action, and
  the configuration artifact is \<open>Config\<close>.
\<close>

theorem toolkit_actions_share_project:
  "project (createToolkitStage this n1 o1 r1) = toolkitProject this \<and>
   input_artifact (createToolkitStage this n1 o1 r1) = buildOutput this \<and>
   extraInputs (createToolkitStage this n1 o1 r1) = Some [configRepoArtifact this] \<and>
   role (createToolkitStage this n1 o1 r1) = Some (pipelineRole this) \<and>
   createToolkitStage this n1 o1 r1 =
     (createToolkitStage this n2 o2 r2)
       \<lparr>actionName := n1, runOrder := r1,
        environmentVariables :=
          Some [(''CDK_OPTIONS'', \<lparr>var_type = PLAINTEXT, var_value = o1\<rparr>)]\<rparr> \<and>
   concat (map (\<lambda>s. codeBuildActions (actions s))
     (drop 2 (stages (pipeline_resource (AcceleratorPipeline env stg props))))) =
     [createToolkitStage (AcceleratorPipeline env stg props) ''Bootstrap''
        (Concat [Literal ''bootstrap --partition '', partition_stack env]) None,
      createToolkitStage (AcceleratorPipeline env stg props) ''Logging''
        (Literal (''deploy --stage '' @ LOGGING stg)) None,
      createToolkitStage (AcceleratorPipeline env stg props) ''Organizations''
        (Literal (''deploy --stage '' @ ORGANIZATIONS stg)) None,
      createToolkitStage (AcceleratorPipeline env stg props) ''SecurityAudit''
        (Literal (''deploy --stage '' @ SECURITY_AUDIT stg)) None,
      createToolkitStage (AcceleratorPipeline env stg props) ''Security''
        (Literal (''deploy --stage '' @ SECURITY stg)) (Some 1)] \<and>
   concat (map (\<lambda>s. codeBuildActions (actions s))
     (take 2 (stages (pipeline_resource (AcceleratorPipeline env stg props))))) =
     [\<lparr>actionName = ''Build'', runOrder = None,
       role = Some (pipelineRole (AcceleratorPipeline env stg props)),
       project = buildProject (AcceleratorPipeline env stg props),
       input_artifact = acceleratorRepoArtifact (AcceleratorPipeline env stg props),
       extraInputs = None,
       outputs = Some [buildOutput (AcceleratorPipeline env stg props)],
       environmentVariables = None\<rparr>] \<and>
   configRepoArtifact (AcceleratorPipeline env stg props) = Artifact ''Config'' \<and>
   projectName (toolkitProject (AcceleratorPipeline env stg props)) =
     ''AWSAccelerator-ToolkitProject''"
proof -
  have a: "buildOutput (AcceleratorPipeline env stg props) = Artifact ''Build''"
    and b: "acceleratorRepoArtifact (AcceleratorPipeline env stg props) = Artifact ''Source''"
    and c: "configRepoArtifact (AcceleratorPipeline env stg props) = Artifact ''Config''"
    and d: "projectName (toolkitProject (AcceleratorPipeline env stg props)) =
     ''AWSAccelerator-ToolkitProject''"
    by (simp_all add: AcceleratorPipeline_def Let_def accelerator_pipeline_fields.extend_def)
  have e: "createToolkitStage this n1 o1 r1 =
     (createToolkitStage this n2 o2 r2)
       \<lparr>actionName := n1, runOrder := r1,
        environmentVariables :=
          Some [(''CDK_OPTIONS'', \<lparr>var_type = PLAINTEXT, var_value = o1\<rparr>)]\<rparr>"
    by (simp add: createToolkitStage_def)
  have f: "project (createToolkitStage this n1 o1 r1) = toolkitProject this \<and>
   input_artifact (createToolkitStage this n1 o1 r1) = buildOutput this \<and>
   extraInputs (createToolkitStage this n1 o1 r1) = Some [configRepoArtifact this] \<and>
   role (createToolkitStage this n1 o1 r1) = Some (pipelineRole this)"
    by (simp add: createToolkitStage_def)
  have g: "concat (map (\<lambda>s. codeBuildActions (actions s))
     (drop 2 (stages (pipeline_resource (AcceleratorPipeline env stg props))))) =
     [createToolkitStage (AcceleratorPipeline env stg props) ''Bootstrap''
        (Concat [Literal ''bootstrap --partition '', partition_stack env]) None,
      createToolkitStage (AcceleratorPipeline env stg props) ''Logging''
        (Literal (''deploy --stage '' @ LOGGING stg)) None,
      createToolkitStage (AcceleratorPipeline env stg props) ''Organizations''
        (Literal (''deploy --stage '' @ ORGANIZATIONS stg)) None,
      createToolkitStage (AcceleratorPipeline env stg props) ''SecurityAudit''
        (Literal (''deploy --stage '' @ SECURITY_AUDIT stg)) None,
      createToolkitStage (AcceleratorPipeline env stg props) ''Security''
        (Literal (''deploy --stage '' @ SECURITY stg)) (Some 1)]"
    unfolding AcceleratorPipeline_stages by simp
  have h: "concat (map (\<lambda>s. codeBuildActions (actions s))
     (take 2 (stages (pipeline_resource (AcceleratorPipeline env stg props))))) =
     [\<lparr>actionName = ''Build'', runOrder = None,
       role = Some (pipelineRole (AcceleratorPipeline env stg props)),
       project = buildProject (AcceleratorPipeline env stg props),
       input_artifact = acceleratorRepoArtifact (AcceleratorPipeline env stg props),
       extraInputs = None,
       outputs = Some [buildOutput (AcceleratorPipeline env stg props)],
       environmentVariables = None\<rparr>]"
    unfolding AcceleratorPipeline_stages a b by simp
  from c d e f g h show ?thesis by blast
qed

theorem toolkit_actions_share_project_witness:
  "map (\<lambda>a. (actionName a, runOrder a, projectName (project a), input_artifact a, extraInputs a))
     (concat (map (\<lambda>s. codeBuildActions (actions s))
       (drop 2 (stages (pipeline_resource (AcceleratorPipeline demo_env demo_stage demo_props)))))) =
   [(''Bootstrap'', None, ''AWSAccelerator-ToolkitProject'', Artifact ''Build'',
       Some [Artifact ''Config'']),
    (''Logging'', None, ''AWSAccelerator-ToolkitProject'', Artifact ''Build'',
       Some [Artifact ''Config'']),
    (''Organizations'', None, ''AWSAccelerator-ToolkitProject'', Artifact ''Build'',
       Some [Artifact ''Config'']),
    (''SecurityAudit'', None, ''AWSAccelerator-ToolkitProject'', Artifact ''Build'',
       Some [Artifact ''Config'']),
    (''Security'', Some 1, ''AWSAccelerator-ToolkitProject'', Artifact ''Build'',
       Some [Artifact ''Config''])]"
proof -
  have a: "buildOutput (AcceleratorPipeline demo_env demo_stage demo_props) = Artifact ''Build''"
    by (simp add: AcceleratorPipeline_def Let_def accelerator_pipeline_fields.extend_def)
  show ?thesis
    using toolkit_actions_share_project [of _ _ _ _ _ _ _ demo_env demo_stage demo_props] a
    by (simp add: createToolkitStage_def)
qed

end
